theory Spec2Isabelle
  imports Complex_Main "HOL-Library.Product_Lexorder"
begin

section \<open>Python values used by the feed\<close>

text \<open>
  The exceptions the modelled code can raise. A raising call returns \<open>Inl e\<close>;
  a call that returns normally gives \<open>Inr v\<close>.
\<close>

datatype error =
    ValueError string
  | RuntimeError string
  | TypeError
  | IndexError
  | ZeroDivisionError
  | OverflowError
  | AttributeError

subsection \<open>datetime\<close>

text \<open>
  A naive \<open>datetime.datetime\<close>. Year, month and day are kept as the proleptic
  Gregorian ordinal (\<open>toordinal()\<close>: 0001-01-01 is day 1), the other attributes as
  Python has them. Python compares two datetimes field by field, most significant
  first, which is the lexicographic order of \<open>dt_key\<close>.
\<close>

record datetime =
  ordinal :: int
  hour :: int
  minute :: int
  second :: int
  microsecond :: int

definition dt_key :: "datetime \<Rightarrow> int \<times> int \<times> int \<times> int \<times> int" where
  "dt_key d = (ordinal d, hour d, minute d, second d, microsecond d)"

definition dt_le :: "datetime \<Rightarrow> datetime \<Rightarrow> bool" where
  "dt_le a b = (dt_key a \<le> dt_key b)"

definition dt_less :: "datetime \<Rightarrow> datetime \<Rightarrow> bool" where
  "dt_less a b = (dt_key a < dt_key b)"

text \<open>\<open>datetime.time\<close> as (hour, minute, second, microsecond), compared lexicographically.\<close>

type_synonym time_of_day = "int \<times> int \<times> int \<times> int"

definition dt_time :: "datetime \<Rightarrow> time_of_day" where
  "dt_time d = (hour d, minute d, second d, microsecond d)"

text \<open>\<open>weekday()\<close>: Monday is 0, Sunday is 6.\<close>

definition weekday :: "datetime \<Rightarrow> int" where
  "weekday d = (ordinal d + 6) mod 7"

text \<open>The ordinal of a calendar date, as \<open>datetime._ymd2ord\<close> computes it.\<close>

definition is_leap :: "int \<Rightarrow> bool" where
  "is_leap y = (y mod 4 = 0 \<and> (y mod 100 \<noteq> 0 \<or> y mod 400 = 0))"

definition days_before_year :: "int \<Rightarrow> int" where
  "days_before_year year =
     (let y = year - 1 in y * 365 + y div 4 - y div 100 + y div 400)"

definition days_before_month :: "int \<Rightarrow> int \<Rightarrow> int" where
  "days_before_month year month =
     [0, 0, 31, 59, 90, 120, 151, 181, 212, 243, 273, 304, 334] ! nat month
       + (if month > 2 \<and> is_leap year then 1 else 0)"

definition ymd2ord :: "int \<Rightarrow> int \<Rightarrow> int \<Rightarrow> int" where
  "ymd2ord year month day = days_before_year year + days_before_month year month + day"

definition mk_datetime :: "int \<Rightarrow> int \<Rightarrow> int \<Rightarrow> int \<Rightarrow> int \<Rightarrow> datetime" where
  "mk_datetime y m d hh mm =
     \<lparr>ordinal = ymd2ord y m d, hour = hh, minute = mm, second = 0, microsecond = 0\<rparr>"

text \<open>
  \<open>d.replace(hour=h, minute=m, second=0, microsecond=0)\<close>: a field out of its range
  raises ValueError.
\<close>

definition replace_hm :: "datetime \<Rightarrow> int \<Rightarrow> int \<Rightarrow> error + datetime" where
  "replace_hm d h m =
     (if 0 \<le> h \<and> h < 24 \<and> 0 \<le> m \<and> m < 60
      then Inr (d\<lparr>hour := h, minute := m, second := 0, microsecond := 0\<rparr>)
      else Inl (ValueError ''field out of range''))"

text \<open>
  \<open>d + datetime.timedelta(days=k)\<close>: the result must lie between 0001-01-01 and
  9999-12-31, else OverflowError.
\<close>

definition max_ordinal :: int where
  "max_ordinal = 3652059"

definition add_days :: "datetime \<Rightarrow> int \<Rightarrow> error + datetime" where
  "add_days d k =
     (if 1 \<le> ordinal d + k \<and> ordinal d + k \<le> max_ordinal
      then Inr (d\<lparr>ordinal := ordinal d + k\<rparr>)
      else Inl OverflowError)"

subsection \<open>Parsing numbers and times\<close>

definition is_digit :: "char \<Rightarrow> bool" where
  "is_digit c = (c \<in> set ''0123456789'')"

definition digit_val :: "char \<Rightarrow> nat" where
  "digit_val c = of_char c - 48"

text \<open>The value of a string of decimal digits, most significant first.\<close>

definition decimal :: "string \<Rightarrow> nat" where
  "decimal ds = foldl (\<lambda>a c. a * 10 + digit_val c) 0 ds"

text \<open>
  The ASCII characters that \<open>int()\<close> skips at both ends of its argument: tab, line
  feed, vertical tab, form feed, carriage return and space.
\<close>

definition is_space :: "char \<Rightarrow> bool" where
  "is_space c = (of_char c \<in> {9, 10, 11, 12, 13, 32 :: nat})"

definition strip :: "string \<Rightarrow> string" where
  "strip s = rev (dropWhile is_space (rev (dropWhile is_space s)))"

text \<open>
  The digits of a decimal literal: single underscores are allowed between digits,
  nowhere else. The flag says that the previous character was a digit.
\<close>

fun digit_groups :: "nat \<Rightarrow> bool \<Rightarrow> string \<Rightarrow> nat option" where
  "digit_groups acc prev [] = (if prev then Some acc else None)"
| "digit_groups acc prev (c # cs) =
     (if is_digit c then digit_groups (acc * 10 + digit_val c) True cs
      else if c = CHR ''_'' \<and> prev then digit_groups acc False cs
      else None)"

text \<open>\<open>int(s)\<close> for an ASCII string \<open>s\<close>, base 10.\<close>

definition py_int :: "string \<Rightarrow> error + int" where
  "py_int s =
     (case strip s of
        [] \<Rightarrow> Inl (ValueError ''invalid literal for int()'')
      | c # cs \<Rightarrow>
          (case (if c = CHR ''-'' then map_option (\<lambda>n. - int n) (digit_groups 0 False cs)
                 else if c = CHR ''+'' then map_option int (digit_groups 0 False cs)
                 else map_option int (digit_groups 0 False (c # cs))) of
             None \<Rightarrow> Inl (ValueError ''invalid literal for int()'')
           | Some n \<Rightarrow> Inr n))"

text \<open>
  \<open>datetime.datetime.strptime(s, '%H:%M').time()\<close>. The hour is one digit or 00..23,
  the minute one digit or 00..59, and nothing else may surround them.
\<close>

definition hm_field :: "string \<Rightarrow> nat \<Rightarrow> bool" where
  "hm_field ds mx = ((length ds = 1 \<or> length ds = 2) \<and> list_all is_digit ds \<and> decimal ds \<le> mx)"

definition strptime_HM :: "string \<Rightarrow> error + time_of_day" where
  "strptime_HM s =
     (let h = takeWhile (\<lambda>c. c \<noteq> CHR '':'') s;
          rest = dropWhile (\<lambda>c. c \<noteq> CHR '':'') s
      in case rest of
           [] \<Rightarrow> Inl (ValueError ''time data does not match format'')
         | _ # m \<Rightarrow>
             if hm_field h 23 \<and> hm_field m 59
             then Inr (int (decimal h), int (decimal m), 0, 0)
             else Inl (ValueError ''time data does not match format''))"

section \<open>The TradeLocker feed\<close>

subsection \<open>State\<close>

text \<open>An OHLCV bar: a row of the historical table or a dictionary of the live buffer.\<close>

record bar =
  b_datetime :: datetime
  b_open :: real
  b_high :: real
  b_low :: real
  b_close :: real
  b_volume :: real
  b_openinterest :: real

text \<open>The \<open>TradeLockerAPI\<close> object of \<open>momentum_bot.py\<close>.\<close>

record api =
  api_key :: string
  is_connected :: bool

definition connect :: "api \<Rightarrow> bool \<times> api" where
  "connect a = (True, a\<lparr>is_connected := True\<rparr>)"

text \<open>
  The parameters of \<open>TradeLockerFeed\<close> that the code reads. \<open>None\<close> is the Python
  \<open>None\<close>.
\<close>

record params =
  p_symbol :: "string option"
  p_timeframe :: string
  p_fromdate :: "datetime option"
  p_todate :: "datetime option"
  p_historical :: bool
  p_api :: "api option"
  p_sessionstart :: "string option"
  p_sessionend :: "string option"

datatype timeframe_unit = Days | Minutes

text \<open>
  The attributes of a feed object. \<open>idx\<close> is \<open>self._idx\<close>, which exists only after
  \<open>start\<close>; \<open>hist_data\<close> is \<open>None\<close> or the rows of the table; \<open>lines\<close> is the
  bar at position 0 of the feed's lines, the current bar.
\<close>

record feed =
  p :: params
  f_api :: api
  intraday :: bool
  dtformat :: string
  dataformat_datetime :: timeframe_unit
  hist_data :: "bar list option"
  hist_loaded :: bool
  live_buffer :: "bar list"
  last_bar_time :: "datetime option"
  last_bar :: "bar option"
  idx :: "int option"
  lines :: "bar option"

subsection \<open>Construction\<close>

text \<open>\<open>TradeLockerFeed.__init__\<close>. \<open>timeframe[-1]\<close> of the empty string raises IndexError.\<close>

definition init :: "params \<Rightarrow> error + feed" where
  "init ps =
     (case p_api ps of
        None \<Rightarrow> Inl (ValueError ''TradeLocker API instance must be provided'')
      | Some a \<Rightarrow>
          (if p_symbol ps = None then Inl (ValueError ''Symbol must be provided'')
           else if p_timeframe ps = [] then Inl IndexError
           else
             (let intra = (last (p_timeframe ps) \<notin> {CHR ''d'', CHR ''w'', CHR ''m''})
              in Inr \<lparr>p = ps, f_api = a, intraday = intra,
                      dtformat = (if intra then ''%Y-%m-%dT%H:%M:%S'' else ''%Y-%m-%d''),
                      dataformat_datetime = (if \<not> intra then Days else Minutes),
                      hist_data = None, hist_loaded = False,
                      live_buffer = [], last_bar_time = None, last_bar = None,
                      idx = None, lines = None\<rparr>)))"

text \<open>\<open>int(self.p.timeframe[:-1])\<close>, the bar length in minutes of an intraday feed.\<close>

definition timeframe_minutes :: "params \<Rightarrow> error + int" where
  "timeframe_minutes ps = py_int (butlast (p_timeframe ps))"

text \<open>\<open>TradeLockerFeed.islive\<close>.\<close>

definition islive :: "feed \<Rightarrow> bool" where
  "islive s = True"

subsection \<open>The historical loader\<close>

text \<open>
  What \<open>_load_historical_data\<close> reads from outside the feed: the clock, for the default
  start and end dates, and the samples numpy draws. \<open>close_steps e i\<close> is the
  \<open>i\<close>-th sample of \<open>normal(0.01, 0.1, n)\<close> for the close prices, \<open>open_noise\<close> of
  \<open>normal(0, 0.1, n)\<close>, \<open>high_noise\<close> and \<open>low_noise\<close> of the two
  \<open>normal(0.05, 0.05, n)\<close>, \<open>volumes\<close> of \<open>randint(1000, 10000, n)\<close>. Prices are
  modelled as real numbers.
\<close>

record loader_env =
  now_start :: datetime
  now_end :: datetime
  close_steps :: "nat \<Rightarrow> real"
  open_noise :: "nat \<Rightarrow> real"
  high_noise :: "nat \<Rightarrow> real"
  low_noise :: "nat \<Rightarrow> real"
  volumes :: "nat \<Rightarrow> int"

text \<open>
  The inner loop: \<open>while minutes < session_end\<close>, with \<open>session_end\<close> 960. It does not
  return when the timeframe is zero minutes; that is the value \<open>None\<close>.
\<close>

partial_function (option) minute_loop ::
  "params \<Rightarrow> datetime \<Rightarrow> int \<Rightarrow> datetime list \<Rightarrow> (error + datetime list) option" where
  "minute_loop ps current_date minutes dates =
     (if minutes < 16 * 60 then
        (case replace_hm current_date (minutes div 60) (minutes mod 60) of
           Inl er \<Rightarrow> Some (Inl er)
         | Inr bar_time \<Rightarrow>
             (case timeframe_minutes ps of
                Inl er \<Rightarrow> Some (Inl er)
              | Inr k \<Rightarrow> minute_loop ps current_date (minutes + k) (dates @ [bar_time])))
      else Some (Inr dates))"

declare minute_loop.simps [code]

text \<open>The outer loop: \<open>while current_date <= end_date\<close>, one day at a time.\<close>

function collect_dates ::
  "params \<Rightarrow> bool \<Rightarrow> datetime \<Rightarrow> datetime \<Rightarrow> datetime list \<Rightarrow> (error + datetime list) option" where
  "collect_dates ps intra current_date end_date dates =
     (if dt_le current_date end_date then
        (if intra then
           (case (if weekday current_date < 5
                  then minute_loop ps current_date (9 * 60 + 30) dates
                  else Some (Inr dates)) of
              None \<Rightarrow> None
            | Some (Inl er) \<Rightarrow> Some (Inl er)
            | Some (Inr dates') \<Rightarrow>
                (case add_days current_date 1 of
                   Inl er \<Rightarrow> Some (Inl er)
                 | Inr next_date \<Rightarrow> collect_dates ps intra next_date end_date dates'))
         else
           (case add_days current_date 1 of
              Inl er \<Rightarrow> Some (Inl er)
            | Inr next_date \<Rightarrow>
                collect_dates ps intra next_date end_date
                  (if weekday current_date < 5 then dates @ [current_date] else dates)))
      else Some (Inr dates))"
  by pat_completeness auto
termination
proof (relation "measure (\<lambda>(ps, intra, c, e, ds). nat (ordinal e + 1 - ordinal c))")
  show "wf (measure (\<lambda>(ps, intra, c, e, ds). nat (ordinal e + 1 - ordinal c)))"
    by simp
qed (auto simp: dt_le_def dt_key_def add_days_def split: if_splits)

declare collect_dates.simps [simp del]

fun cumsum_from :: "real \<Rightarrow> real list \<Rightarrow> real list" where
  "cumsum_from a [] = []"
| "cumsum_from a (x # xs) = (a + x) # cumsum_from (a + x) xs"

definition cumsum :: "real list \<Rightarrow> real list" where
  "cumsum xs = cumsum_from 0 xs"

text \<open>The rows of the DataFrame built from the \<open>n\<close> dates and the samples.\<close>

definition make_rows :: "loader_env \<Rightarrow> datetime list \<Rightarrow> bar list" where
  "make_rows e dates =
     (let n = length dates;
          close_prices = map (\<lambda>c. c + 100) (cumsum (map (close_steps e) [0..<n]));
          open_prices = map (\<lambda>i. close_prices ! i - open_noise e i) [0..<n];
          high_prices = map (\<lambda>i. max (close_prices ! i) (open_prices ! i) + high_noise e i) [0..<n];
          low_prices = map (\<lambda>i. min (close_prices ! i) (open_prices ! i) - low_noise e i) [0..<n]
      in map (\<lambda>i. \<lparr>b_datetime = dates ! i,
                    b_open = open_prices ! i,
                    b_high = high_prices ! i,
                    b_low = low_prices ! i,
                    b_close = close_prices ! i,
                    b_volume = of_int (volumes e i),
                    b_openinterest = 0\<rparr>) [0..<n])"

text \<open>\<open>TradeLockerFeed._load_historical_data\<close>.\<close>

definition load_historical_data :: "loader_env \<Rightarrow> feed \<Rightarrow> (error + feed) option" where
  "load_historical_data e s =
     (case (case p_fromdate (p s) of
              Some d \<Rightarrow> Inr d
            | None \<Rightarrow> add_days (now_start e) (- 30)) of
        Inl er \<Rightarrow> Some (Inl er)
      | Inr start_date \<Rightarrow>
          (let end_date = (case p_todate (p s) of Some d \<Rightarrow> d | None \<Rightarrow> now_end e)
           in case collect_dates (p s) (intraday s) start_date end_date [] of
                None \<Rightarrow> None
              | Some (Inl er) \<Rightarrow> Some (Inl er)
              | Some (Inr dates) \<Rightarrow>
                  if length dates = 0
                  then Some (Inr (s\<lparr>hist_data := Some [], hist_loaded := True\<rparr>))
                  else
                    (let rows = make_rows e dates;
                         s1 = s\<lparr>hist_data := Some rows\<rparr>;
                         s2 = (if rows \<noteq> []
                               then s1\<lparr>last_bar_time := Some (b_datetime (last rows))\<rparr>
                               else s1)
                     in Some (Inr (s2\<lparr>hist_loaded := True\<rparr>)))))"

text \<open>\<open>TradeLockerFeed.start\<close>.\<close>

definition start :: "loader_env \<Rightarrow> feed \<Rightarrow> (error + feed) option" where
  "start e s =
     (case (if \<not> is_connected (f_api s)
            then (let (ok, a) = connect (f_api s)
                  in if \<not> ok then Inl (RuntimeError ''Failed to connect to TradeLocker API'')
                     else Inr (s\<lparr>f_api := a\<rparr>))
            else Inr s) of
        Inl er \<Rightarrow> Some (Inl er)
      | Inr s1 \<Rightarrow>
          (case (if p_historical (p s1) then load_historical_data e s1 else Some (Inr s1)) of
             None \<Rightarrow> None
           | Some (Inl er) \<Rightarrow> Some (Inl er)
           | Some (Inr s2) \<Rightarrow> Some (Inr (s2\<lparr>idx := Some (- 1)\<rparr>))))"

subsection \<open>The live poller\<close>

text \<open>
  What one call of \<open>_fetch_live_bar\<close> reads from outside the feed: \<open>datetime.now()\<close>
  and the two readings of \<open>time.time()\<close>, for the close price and for the volume.
\<close>

record clock =
  now :: datetime
  time_close :: real
  time_volume :: real

text \<open>Python's \<open>x % m\<close> on floats, for a positive \<open>m\<close>.\<close>

definition fmod :: "real \<Rightarrow> real \<Rightarrow> real" where
  "fmod x m = x - m * of_int \<lfloor>x / m\<rfloor>"

text \<open>A parameter that is \<open>None\<close> or the empty string is false in a condition.\<close>

definition truthy :: "string option \<Rightarrow> bool" where
  "truthy v = (case v of None \<Rightarrow> False | Some str \<Rightarrow> str \<noteq> [])"

text \<open>The session gate: \<open>is_trading_hours\<close>.\<close>

definition is_trading_hours :: "clock \<Rightarrow> params \<Rightarrow> error + bool" where
  "is_trading_hours e ps =
     (if truthy (p_sessionstart ps) \<and> truthy (p_sessionend ps) then
        (case strptime_HM (case p_sessionstart ps of Some a \<Rightarrow> a | None \<Rightarrow> []) of
           Inl er \<Rightarrow> Inl er
         | Inr session_start \<Rightarrow>
             (case strptime_HM (case p_sessionend ps of Some b \<Rightarrow> b | None \<Rightarrow> []) of
                Inl er \<Rightarrow> Inl er
              | Inr session_end \<Rightarrow>
                  (let current_time = dt_time (now e)
                   in Inr (session_start \<le> current_time \<and> current_time \<le> session_end))))
      else Inr True)"

text \<open>The timestamp of the candidate bar: \<open>now\<close> rounded down to the timeframe.\<close>

definition live_bar_time :: "clock \<Rightarrow> feed \<Rightarrow> error + datetime" where
  "live_bar_time e s =
     (if intraday s then
        (case timeframe_minutes (p s) of
           Inl er \<Rightarrow> Inl er
         | Inr minutes_timeframe \<Rightarrow>
             (let total_minutes = hour (now e) * 60 + minute (now e)
              in if minutes_timeframe = 0 then Inl ZeroDivisionError
                 else
                   (let bar_minutes = (total_minutes div minutes_timeframe) * minutes_timeframe
                    in replace_hm (now e) (bar_minutes div 60) (bar_minutes mod 60))))
      else replace_hm (now e) 0 0)"

text \<open>The simulated prices and volume of the bar at \<open>bar_time\<close>.\<close>

definition simulated_bar :: "clock \<Rightarrow> feed \<Rightarrow> datetime \<Rightarrow> bar" where
  "simulated_bar e s bar_time =
     (case last_bar s of
        Some lb \<Rightarrow>
          (let last_close = b_close lb;
               open_price = last_close;
               close_price = last_close * (1 + (0.001 * (0.5 - fmod (time_close e) 2)))
           in \<lparr>b_datetime = bar_time, b_open = open_price,
               b_high = max open_price close_price + 0.001,
               b_low = min open_price close_price - 0.001,
               b_close = close_price,
               b_volume = 1000 + fmod (time_volume e) 1000,
               b_openinterest = 0\<rparr>)
      | None \<Rightarrow>
          \<lparr>b_datetime = bar_time, b_open = 99.95, b_high = 100.05, b_low = 99.90,
           b_close = 100.0,
           b_volume = 1000 + fmod (time_volume e) 1000,
           b_openinterest = 0\<rparr>)"

text \<open>\<open>TradeLockerFeed._fetch_live_bar\<close>: the bar, or \<open>None\<close>, and the feed after the call.\<close>

definition fetch_live_bar :: "clock \<Rightarrow> feed \<Rightarrow> error + (bar option \<times> feed)" where
  "fetch_live_bar e s =
     (case is_trading_hours e (p s) of
        Inl er \<Rightarrow> Inl er
      | Inr trading_hours \<Rightarrow>
          (let is_weekday = (weekday (now e) < 5)
           in if \<not> (trading_hours \<and> is_weekday) then Inr (None, s)
              else
                (case live_bar_time e s of
                   Inl er \<Rightarrow> Inl er
                 | Inr bar_time \<Rightarrow>
                     if (case last_bar_time s of
                           Some t \<Rightarrow> dt_le bar_time t
                         | None \<Rightarrow> False)
                     then Inr (None, s)
                     else
                       (let b = simulated_bar e s bar_time
                        in Inr (Some b, s\<lparr>last_bar := Some b, last_bar_time := Some bar_time\<rparr>)))))"

text \<open>\<open>TradeLockerFeed._load_next_live_bar\<close>.\<close>

definition load_next_live_bar :: "clock \<Rightarrow> feed \<Rightarrow> error + (bool \<times> feed)" where
  "load_next_live_bar e s =
     (case fetch_live_bar e s of
        Inl er \<Rightarrow> Inl er
      | Inr (None, s') \<Rightarrow> Inr (False, s')
      | Inr (Some b, s') \<Rightarrow> Inr (True, s'\<lparr>live_buffer := live_buffer s' @ [b]\<rparr>))"

subsection \<open>The cursor\<close>

text \<open>\<open>len(self.hist_data)\<close>: TypeError when no table was loaded.\<close>

definition hist_len :: "feed \<Rightarrow> error + int" where
  "hist_len s = (case hist_data s of None \<Rightarrow> Inl TypeError | Some rows \<Rightarrow> Inr (int (length rows)))"

text \<open>The test \<open>self._idx >= 0 and self._idx < len(self.hist_data) - k\<close>.\<close>

definition idx_within :: "feed \<Rightarrow> int \<Rightarrow> int \<Rightarrow> error + bool" where
  "idx_within s i k =
     (if i \<ge> 0 then (case hist_len s of Inl er \<Rightarrow> Inl er | Inr n \<Rightarrow> Inr (i < n - k))
      else Inr False)"

text \<open>\<open>self.live_buffer.pop(0)\<close> behind the test \<open>if self.live_buffer\<close>.\<close>

definition pop_live :: "feed \<Rightarrow> bar option \<times> feed" where
  "pop_live s =
     (case live_buffer s of
        [] \<Rightarrow> (None, s)
      | b # bs \<Rightarrow> (Some b, s\<lparr>live_buffer := bs\<rparr>))"

text \<open>The second half of \<open>_get_bar\<close>: the bar comes from the live buffer.\<close>

definition get_live_bar :: "clock \<Rightarrow> feed \<Rightarrow> error + (bar option \<times> feed)" where
  "get_live_bar e s =
     (if live_buffer s = [] then
        (case load_next_live_bar e s of
           Inl er \<Rightarrow> Inl er
         | Inr (loaded, s') \<Rightarrow>
             if \<not> loaded then Inr (None, s') else Inr (pop_live s'))
      else Inr (pop_live s))"

text \<open>\<open>TradeLockerFeed._get_bar\<close>.\<close>

definition get_bar :: "clock \<Rightarrow> feed \<Rightarrow> error + (bar option \<times> feed)" where
  "get_bar e s =
     (case idx s of
        None \<Rightarrow> Inl AttributeError
      | Some i \<Rightarrow>
          (case idx_within s i 0 of
             Inl er \<Rightarrow> Inl er
           | Inr True \<Rightarrow>
               (case hist_data s of
                  None \<Rightarrow> Inl TypeError
                | Some rows \<Rightarrow> Inr (Some (rows ! nat i), s))
           | Inr False \<Rightarrow> get_live_bar e s))"

text \<open>\<open>TradeLockerFeed._load_bar\<close>: the bar becomes the current bar of the lines.\<close>

definition load_bar :: "clock \<Rightarrow> feed \<Rightarrow> error + (bool \<times> feed)" where
  "load_bar e s =
     (case get_bar e s of
        Inl er \<Rightarrow> Inl er
      | Inr (None, s') \<Rightarrow> Inr (False, s')
      | Inr (Some b, s') \<Rightarrow> Inr (True, s'\<lparr>lines := Some b\<rparr>))"

text \<open>\<open>TradeLockerFeed._next_historical\<close>.\<close>

definition next_historical :: "feed \<Rightarrow> error + (bool \<times> feed)" where
  "next_historical s =
     (case idx s of
        None \<Rightarrow> Inl AttributeError
      | Some i \<Rightarrow>
          (let s' = s\<lparr>idx := Some (i + 1)\<rparr>
           in case hist_len s' of
                Inl er \<Rightarrow> Inl er
              | Inr n \<Rightarrow> Inr (i + 1 < n, s')))"

text \<open>\<open>TradeLockerFeed._next_live\<close>.\<close>

definition next_live :: "clock \<Rightarrow> feed \<Rightarrow> error + (bool \<times> feed)" where
  "next_live e s = load_next_live_bar e s"

text \<open>
  \<open>TradeLockerFeed.next\<close>, the advance operation of the feed (\<open>next\<close> is a keyword
  here, hence the longer name).
\<close>

definition next_feed :: "clock \<Rightarrow> feed \<Rightarrow> error + (bool \<times> feed)" where
  "next_feed e s =
     (case idx s of
        None \<Rightarrow> Inl AttributeError
      | Some i \<Rightarrow>
          (case idx_within s i 1 of
             Inl er \<Rightarrow> Inl er
           | Inr True \<Rightarrow>
               (case next_historical s of
                  Inl er \<Rightarrow> Inl er
                | Inr (_, s') \<Rightarrow> Inr (True, s'))
           | Inr False \<Rightarrow>
               (case hist_len s of
                  Inl er \<Rightarrow> Inl er
                | Inr n \<Rightarrow>
                    if i = n - 1 then
                      (let s1 = s\<lparr>idx := Some (i + 1)\<rparr>;
                           s2 = (if \<not> p_historical (p s1)
                                 then s1\<lparr>live_buffer := [], last_bar_time := None\<rparr>
                                 else s1)
                       in next_live e s2)
                    else next_live e s)))"

text \<open>
  \<open>TradeLockerFeed.load_next\<close>. The call \<open>super().next()\<close> runs the framework's
  method, which is not part of this program; its answer is the parameter
  \<open>super_next\<close>.
\<close>

definition load_next :: "bool \<Rightarrow> clock \<Rightarrow> feed \<Rightarrow> error + (bool \<times> feed)" where
  "load_next super_next e s = (if \<not> super_next then Inr (False, s) else load_bar e s)"

text \<open>\<open>TradeLockerFeed.haslivedata\<close>.\<close>

definition haslivedata :: "feed \<Rightarrow> error + bool" where
  "haslivedata s =
     (if live_buffer s \<noteq> [] then Inr True
      else case idx s of
             None \<Rightarrow> Inl AttributeError
           | Some i \<Rightarrow> (case hist_len s of Inl er \<Rightarrow> Inl er | Inr n \<Rightarrow> Inr (i \<ge> n)))"

text \<open>
  A sequence of advance calls, one clock reading for each; an exception ends the
  sequence. The answers of the calls are collected in order.
\<close>

fun advance_all :: "clock list \<Rightarrow> feed \<Rightarrow> error + (bool list \<times> feed)" where
  "advance_all [] s = Inr ([], s)"
| "advance_all (e # es) s =
     (case next_feed e s of
        Inl er \<Rightarrow> Inl er
      | Inr (r, s') \<Rightarrow>
          (case advance_all es s' of
             Inl er \<Rightarrow> Inl er
           | Inr (rs, s'') \<Rightarrow> Inr (r # rs, s'')))"

text \<open>The live poller invoked once for each clock reading of a list.\<close>

fun poll_all :: "clock list \<Rightarrow> feed \<Rightarrow> error + (bool list \<times> feed)" where
  "poll_all [] s = Inr ([], s)"
| "poll_all (e # es) s =
     (case load_next_live_bar e s of
        Inl er \<Rightarrow> Inl er
      | Inr (r, s') \<Rightarrow>
          (case poll_all es s' of
             Inl er \<Rightarrow> Inl er
           | Inr (rs, s'') \<Rightarrow> Inr (r # rs, s'')))"

text \<open>The cursor is inside the historical table: the test of \<open>_get_bar\<close> for serving a row.\<close>

definition in_historical :: "feed \<Rightarrow> bool" where
  "in_historical s =
     (case (idx s, hist_data s) of
        (Some i, Some rows) \<Rightarrow> 0 \<le> i \<and> i < int (length rows)
      | _ \<Rightarrow> False)"

section \<open>The EMA crossover strategy\<close>

text \<open>
  The statuses an order of the framework can have, and what the strategy reads of an
  order: its reference, its status and its side.
\<close>

datatype order_status =
  Created | Submitted | Accepted | Partial | Completed | Canceled | Expired | Margin | Rejected

record bt_order =
  o_ref :: nat
  o_status :: order_status
  o_isbuy :: bool

text \<open>The lines the strategy writes with \<open>log\<close> (here \<open>log_msg\<close>), without the numbers they show.\<close>

datatype log_line =
  BuyExecuted | SellExecuted | OrderFailed | ClosePrice | BuyCreate | SellCreate

text \<open>\<open>s_order\<close> is \<open>self.order\<close>, the pending order or \<open>None\<close>.\<close>

record strategy =
  s_order :: "bt_order option"
  log_enabled :: bool
  printed :: "log_line list"

definition log_msg :: "log_line \<Rightarrow> strategy \<Rightarrow> strategy" where
  "log_msg txt st = (if log_enabled st then st\<lparr>printed := printed st @ [txt]\<rparr> else st)"

text \<open>\<open>EmaCrossStrategy.notify_order\<close>.\<close>

definition notify_order :: "bt_order \<Rightarrow> strategy \<Rightarrow> strategy" where
  "notify_order ord st =
     (if o_status ord \<in> {Submitted, Accepted} then st
      else
        (let st1 =
               (if o_status ord \<in> {Completed}
                then (if o_isbuy ord then log_msg BuyExecuted st else log_msg SellExecuted st)
                else if o_status ord \<in> {Canceled, Margin, Rejected}
                then log_msg OrderFailed st
                else st)
         in st1\<lparr>s_order := None\<rparr>))"

text \<open>
  What \<open>next\<close> reads at a bar: whether a position is held, the value of the crossover
  indicator, and what \<open>buy()\<close> and \<open>sell()\<close> would return there, the created order
  or \<open>None\<close>.
\<close>

record bar_view =
  in_position :: bool
  crossover :: real
  buy_result :: "bt_order option"
  sell_result :: "bt_order option"

datatype action = NoAction | Buy | Sell

text \<open>\<open>EmaCrossStrategy.next\<close>: the call made to the broker at this bar, and the new state.\<close>

definition strategy_next :: "bar_view \<Rightarrow> strategy \<Rightarrow> action \<times> strategy" where
  "strategy_next v st =
     (if s_order st \<noteq> None then (NoAction, st)
      else
        (let st1 = log_msg ClosePrice st
         in if \<not> in_position v then
              (if crossover v > 0
               then (Buy, (log_msg BuyCreate st1)\<lparr>s_order := buy_result v\<rparr>)
               else (NoAction, st1))
            else
              (if crossover v < 0
               then (Sell, (log_msg SellCreate st1)\<lparr>s_order := sell_result v\<rparr>)
               else (NoAction, st1))))"

text \<open>The framework calls the strategy with bars and with order notifications.\<close>

datatype event = Bar bar_view | Notify bt_order

fun run_events :: "event list \<Rightarrow> strategy \<Rightarrow> action list \<times> strategy" where
  "run_events [] st = ([], st)"
| "run_events (Bar v # evs) st =
     (let (a, st') = strategy_next v st;
          (as, st'') = run_events evs st'
      in (a # as, st''))"
| "run_events (Notify ord # evs) st =
     (let (as, st'') = run_events evs (notify_order ord st)
      in (NoAction # as, st''))"

text \<open>A notification that leaves the pending order in place.\<close>

fun keeps_pending :: "event \<Rightarrow> bool" where
  "keeps_pending (Bar v) = True"
| "keeps_pending (Notify ord) = (o_status ord = Submitted \<or> o_status ord = Accepted)"

section \<open>A scenario: three daily bars\<close>

text \<open>
  A daily feed for 2024-01-01 (a Monday) to 2024-01-03, with the table loaded at
  start and the session strings that \<open>run_live_trading\<close> passes, 09:30 and 16:00.
  The samples of the loader are fixed: the close stays at 100, the open equals the
  close, highs are 0.05 above and lows 0.05 below.
\<close>

definition scenario_api :: api where
  "scenario_api = \<lparr>api_key = ''key'', is_connected = False\<rparr>"

definition scenario_params :: params where
  "scenario_params =
     \<lparr>p_symbol = Some ''AAPL'', p_timeframe = ''1d'',
      p_fromdate = Some (mk_datetime 2024 1 1 0 0),
      p_todate = Some (mk_datetime 2024 1 3 0 0),
      p_historical = True, p_api = Some scenario_api,
      p_sessionstart = Some ''09:30'', p_sessionend = Some ''16:00''\<rparr>"

definition scenario_env :: loader_env where
  "scenario_env =
     \<lparr>now_start = mk_datetime 2024 1 6 12 0, now_end = mk_datetime 2024 1 6 12 0,
      close_steps = (\<lambda>i. 0), open_noise = (\<lambda>i. 0),
      high_noise = (\<lambda>i. 0.05), low_noise = (\<lambda>i. 0.05),
      volumes = (\<lambda>i. 5000)\<rparr>"

definition scenario_init :: feed where
  "scenario_init =
     \<lparr>p = scenario_params, f_api = scenario_api, intraday = False,
      dtformat = ''%Y-%m-%d'', dataformat_datetime = Days,
      hist_data = None, hist_loaded = False, live_buffer = [],
      last_bar_time = None, last_bar = None, idx = None, lines = None\<rparr>"

definition scenario_bar :: "int \<Rightarrow> real \<Rightarrow> bar" where
  "scenario_bar day high =
     \<lparr>b_datetime = mk_datetime 2024 1 day 0 0, b_open = 100, b_high = high,
      b_low = 99.95, b_close = 100, b_volume = 5000, b_openinterest = 0\<rparr>"

definition scenario_rows :: "bar list" where
  "scenario_rows = [scenario_bar 1 100.05, scenario_bar 2 100.05, scenario_bar 3 100.05]"

text \<open>The feed after \<open>start\<close>, with the cursor at \<open>i\<close>.\<close>

definition scenario_feed :: "bar list \<Rightarrow> int \<Rightarrow> feed" where
  "scenario_feed rows i =
     scenario_init
       \<lparr>f_api := scenario_api\<lparr>is_connected := True\<rparr>,
        hist_data := Some rows, hist_loaded := True,
        last_bar_time := Some (mk_datetime 2024 1 3 0 0),
        idx := Some i\<rparr>"

text \<open>Clock readings: a Saturday at noon, and the Thursday after the table at 12:07.\<close>

definition saturday :: clock where
  "saturday = \<lparr>now = mk_datetime 2024 1 6 12 0, time_close = 0, time_volume = 0\<rparr>"

definition thursday :: clock where
  "thursday = \<lparr>now = mk_datetime 2024 1 4 12 7, time_close = 0, time_volume = 0\<rparr>"

text \<open>The same loader with a negative sample for the highs.\<close>

definition low_high_env :: loader_env where
  "low_high_env = scenario_env\<lparr>high_noise := (\<lambda>i. - 0.01)\<rparr>"

definition low_high_rows :: "bar list" where
  "low_high_rows = [scenario_bar 1 99.99, scenario_bar 2 99.99, scenario_bar 3 99.99]"

text \<open>The feed of the scenario once its table is exhausted, polled for live bars.\<close>

definition session_feed :: feed where
  "session_feed = scenario_feed scenario_rows 3"

text \<open>The first live bar, polled on that Thursday with no earlier live bar.\<close>

definition thursday_bar :: bar where
  "thursday_bar =
     \<lparr>b_datetime = mk_datetime 2024 1 4 0 0, b_open = 99.95, b_high = 100.05,
      b_low = 99.90, b_close = 100, b_volume = 1000, b_openinterest = 0\<rparr>"

definition thursday_evening :: clock where
  "thursday_evening = \<lparr>now = mk_datetime 2024 1 4 18 0, time_close = 0, time_volume = 0\<rparr>"

text \<open>A feed not yet started whose requested range ends before it begins.\<close>

definition empty_range_init :: feed where
  "empty_range_init =
     scenario_init
       \<lparr>p := scenario_params\<lparr>p_fromdate := Some (mk_datetime 2024 1 3 0 0),
                              p_todate := Some (mk_datetime 2024 1 1 0 0)\<rparr>\<rparr>"

section \<open>Scenarios for the strategy\<close>

text \<open>
  A buy order is pending. In one scenario it expires unfilled, and at the next bar no
  position is held and the fast average has crossed above the slow one. In the other
  the broker reports a partial fill of it, and at the next bar a position is held and
  the fast average has crossed below the slow one.
\<close>

definition buy_order :: bt_order where
  "buy_order = \<lparr>o_ref = 1, o_status = Accepted, o_isbuy = True\<rparr>"

definition sell_order :: bt_order where
  "sell_order = \<lparr>o_ref = 2, o_status = Created, o_isbuy = False\<rparr>"

definition pending_strategy :: strategy where
  "pending_strategy = \<lparr>s_order = Some buy_order, log_enabled = True, printed = []\<rparr>"

definition expired_order :: bt_order where
  "expired_order = buy_order\<lparr>o_status := Expired\<rparr>"

definition partial_fill :: bt_order where
  "partial_fill = buy_order\<lparr>o_status := Partial\<rparr>"

definition death_cross :: bar_view where
  "death_cross =
     \<lparr>in_position = True, crossover = - 1, buy_result = None, sell_result = Some sell_order\<rparr>"

definition golden_cross :: bar_view where
  "golden_cross =
     \<lparr>in_position = False, crossover = 1, buy_result = Some buy_order, sell_result = None\<rparr>"

text \<open>
  The dates collected before day \<open>c\<close> is processed: strictly increasing, all on
  earlier days.
\<close>

definition before_day :: "datetime \<Rightarrow> datetime list \<Rightarrow> bool" where
  "before_day c ds = (sorted_wrt dt_less ds \<and> (\<forall>d \<in> set ds. ordinal d < ordinal c))"

section \<open>Properties of construction\<close>

lemma digit_groups_digits:
  "list_all is_digit ds \<Longrightarrow>
   digit_groups acc prev ds =
     (if ds = [] \<and> \<not> prev then None else Some (foldl (\<lambda>a c. a * 10 + digit_val c) acc ds))"
  by (induction ds arbitrary: acc prev) auto

lemma digit_not_space: "is_digit c \<Longrightarrow> \<not> is_space c"
  by (auto simp: is_digit_def is_space_def)

lemma dropWhile_hd_id: "xs \<noteq> [] \<Longrightarrow> \<not> P (hd xs) \<Longrightarrow> dropWhile P xs = xs"
  by (cases xs) auto

lemma strip_digits:
  assumes "list_all is_digit ds"
  shows "strip ds = ds"
proof (cases "ds = []")
  case True
  then show ?thesis by (simp add: strip_def)
next
  case False
  with assms have "\<not> is_space (hd ds)" and "\<not> is_space (last ds)"
    by (auto simp: digit_not_space list_all_iff)
  with False have "dropWhile is_space ds = ds"
    and "dropWhile is_space (rev ds) = rev ds"
    by (simp_all add: dropWhile_hd_id hd_rev)
  then show ?thesis by (simp add: strip_def)
qed

lemma py_int_digits:
  assumes "list_all is_digit ds" and "ds \<noteq> []"
  shows "py_int ds = Inr (int (decimal ds))"
proof -
  from assms obtain c cs where ds: "ds = c # cs" by (cases ds) auto
  with assms have "is_digit c" by simp
  then have "c \<noteq> CHR ''-''" and "c \<noteq> CHR ''+''"
    by (auto simp: is_digit_def)
  moreover have "digit_groups 0 False ds = Some (decimal ds)"
    using assms by (simp add: digit_groups_digits decimal_def)
  ultimately show ?thesis
    using strip_digits [OF assms(1)] by (simp add: py_int_def ds)
qed

text \<open>
  C10. In every state of every feed, \<open>islive()\<close> returns true: also before the
  feed is started, while the cursor is inside the historical table, and for a feed
  whose table is exhausted.
\<close>

theorem islive_always: "islive s"
  by (simp add: islive_def)

lemmas date_defs = mk_datetime_def ymd2ord_def days_before_year_def days_before_month_def
  is_leap_def dt_le_def dt_less_def dt_key_def weekday_def add_days_def max_ordinal_def
  replace_hm_def dt_time_def

lemmas scenario_defs = scenario_api_def scenario_params_def scenario_env_def scenario_init_def
  scenario_bar_def scenario_rows_def scenario_feed_def saturday_def thursday_def
  low_high_env_def low_high_rows_def session_feed_def thursday_bar_def
  thursday_evening_def empty_range_init_def

text \<open>
  C7. Construction raises ValueError exactly when the API handle is absent or the
  symbol is absent. An error result carries no feed object, so nothing can be started
  then; with both present no ValueError is raised by construction.
\<close>

theorem init_requires_api_and_symbol:
  "(\<exists>msg. init ps = Inl (ValueError msg)) = (p_api ps = None \<or> p_symbol ps = None)"
  by (auto simp: init_def Let_def split: option.splits)

theorem init_requires_api_and_symbol_witness:
  "(\<exists>msg. init (scenario_params\<lparr>p_symbol := None\<rparr>) = Inl (ValueError msg))
   \<and> (\<exists>msg. init (scenario_params\<lparr>p_api := None\<rparr>) = Inl (ValueError msg))
   \<and> \<not> (\<exists>msg. init scenario_params = Inl (ValueError msg))"
  using init_requires_api_and_symbol [of "scenario_params\<lparr>p_symbol := None\<rparr>"]
    init_requires_api_and_symbol [of "scenario_params\<lparr>p_api := None\<rparr>"]
    init_requires_api_and_symbol [of scenario_params]
  by (simp add: scenario_params_def)

section \<open>Timeframe classification\<close>

lemma live_bar_time_intraday:
  assumes "intraday s" and "timeframe_minutes (p s) = Inr k" and "k \<noteq> 0"
  shows "live_bar_time e s =
         replace_hm (now e)
           (((hour (now e) * 60 + minute (now e)) div k) * k div 60)
           (((hour (now e) * 60 + minute (now e)) div k) * k mod 60)"
  using assms by (simp add: live_bar_time_def Let_def)

text \<open>
  C8. For a timeframe string with a last character \<open>c\<close> (and API handle and symbol
  present), the constructed feed is non-intraday, with datetime format Days, exactly
  when \<open>c\<close> is d, w or m; for every other \<open>c\<close> it is intraday with format Minutes.
  When the characters before \<open>c\<close> are digits, their decimal value is the minute count;
  the live poller rounds the clock down to a multiple of that count when the feed is
  intraday, and to midnight when it is not.
\<close>

theorem timeframe_classification:
  assumes "p_api ps = Some a" and "p_symbol ps = Some name" and "p_timeframe ps = pre @ [c]"
  shows "\<exists>s. init ps = Inr s
           \<and> intraday s = (c \<notin> {CHR ''d'', CHR ''w'', CHR ''m''})
           \<and> dataformat_datetime s = (if c \<in> {CHR ''d'', CHR ''w'', CHR ''m''} then Days else Minutes)
           \<and> (list_all is_digit pre \<and> pre \<noteq> [] \<longrightarrow>
                timeframe_minutes (p s) = Inr (int (decimal pre)))
           \<and> (intraday s \<and> list_all is_digit pre \<and> 0 < decimal pre \<longrightarrow>
                (\<forall>e. live_bar_time e s =
                   replace_hm (now e)
                     (((hour (now e) * 60 + minute (now e)) div int (decimal pre)) * int (decimal pre) div 60)
                     (((hour (now e) * 60 + minute (now e)) div int (decimal pre)) * int (decimal pre) mod 60)))
           \<and> (\<not> intraday s \<longrightarrow> (\<forall>e. live_bar_time e s = replace_hm (now e) 0 0))"
proof -
  let ?intra = "c \<notin> {CHR ''d'', CHR ''w'', CHR ''m''}"
  obtain s where s: "init ps = Inr s" and ps: "p s = ps" and intra: "intraday s = ?intra"
    and fmt: "dataformat_datetime s = (if ?intra then Minutes else Days)"
    using assms by (auto simp: init_def Let_def)
  have mins: "timeframe_minutes (p s) = Inr (int (decimal pre))"
    if "list_all is_digit pre" and "pre \<noteq> []"
    using that assms(3) by (simp add: timeframe_minutes_def ps py_int_digits)
  have nonempty: "pre \<noteq> []" if "0 < decimal pre"
    using that by (auto simp: decimal_def)
  have live: "live_bar_time e s =
      replace_hm (now e)
        (((hour (now e) * 60 + minute (now e)) div int (decimal pre)) * int (decimal pre) div 60)
        (((hour (now e) * 60 + minute (now e)) div int (decimal pre)) * int (decimal pre) mod 60)"
    if "intraday s" and "list_all is_digit pre" and "0 < decimal pre" for e
    using live_bar_time_intraday [OF that(1) mins [OF that(2) nonempty [OF that(3)]]] that(3)
    by simp
  have daily: "live_bar_time e s = replace_hm (now e) 0 0" if "\<not> intraday s" for e
    using that by (simp add: live_bar_time_def)
  from s intra fmt mins live daily show ?thesis
    by auto
qed

theorem timeframe_classification_witness:
  "p_api (scenario_params\<lparr>p_timeframe := ''5h''\<rparr>) = Some scenario_api
   \<and> p_symbol (scenario_params\<lparr>p_timeframe := ''5h''\<rparr>) = Some ''AAPL''
   \<and> p_timeframe (scenario_params\<lparr>p_timeframe := ''5h''\<rparr>) = ''5'' @ [CHR ''h'']
   \<and> (\<exists>s. init (scenario_params\<lparr>p_timeframe := ''5h''\<rparr>) = Inr s
          \<and> intraday s \<and> dataformat_datetime s = Minutes
          \<and> timeframe_minutes (p s) = Inr 5
          \<and> live_bar_time thursday s = Inr (mk_datetime 2024 1 4 12 5))"
proof -
  let ?ps = "scenario_params\<lparr>p_timeframe := ''5h''\<rparr>"
  have h: "p_api ?ps = Some scenario_api" "p_symbol ?ps = Some ''AAPL''"
    "p_timeframe ?ps = ''5'' @ [CHR ''h'']"
    by (simp_all add: scenario_params_def)
  have d: "decimal ''5'' = 5" "list_all is_digit ''5''"
    by (simp_all add: decimal_def digit_val_def is_digit_def)
  from timeframe_classification [OF h] obtain s where
    s: "init ?ps = Inr s"
    and A: "intraday s = (CHR ''h'' \<notin> {CHR ''d'', CHR ''w'', CHR ''m''})"
    and B: "dataformat_datetime s =
              (if CHR ''h'' \<in> {CHR ''d'', CHR ''w'', CHR ''m''} then Days else Minutes)"
    and C: "list_all is_digit ''5'' \<and> ''5'' \<noteq> [] \<longrightarrow>
              timeframe_minutes (p s) = Inr (int (decimal ''5''))"
    and D: "intraday s \<and> list_all is_digit ''5'' \<and> 0 < decimal ''5'' \<longrightarrow>
              (\<forall>e. live_bar_time e s =
                 replace_hm (now e)
                   (((hour (now e) * 60 + minute (now e)) div int (decimal ''5'')) * int (decimal ''5'') div 60)
                   (((hour (now e) * 60 + minute (now e)) div int (decimal ''5'')) * int (decimal ''5'') mod 60))"
    by blast
  from A have intra: "intraday s" by simp
  from B have fmt: "dataformat_datetime s = Minutes" by simp
  from C d have mins: "timeframe_minutes (p s) = Inr 5" by simp
  from D intra d have
    "live_bar_time thursday s =
       replace_hm (now thursday)
         (((hour (now thursday) * 60 + minute (now thursday)) div 5) * 5 div 60)
         (((hour (now thursday) * 60 + minute (now thursday)) div 5) * 5 mod 60)"
    by simp
  then have "live_bar_time thursday s = Inr (mk_datetime 2024 1 4 12 5)"
    by (simp add: thursday_def mk_datetime_def replace_hm_def)
  with s intra fmt mins show ?thesis using h by blast
qed


section \<open>The live poller\<close>

lemma not_dt_le: "\<not> dt_le a b \<Longrightarrow> dt_less b a"
  by (auto simp: dt_le_def dt_less_def)

lemma fetch_live_bar_cases:
  assumes "last_bar_time s = Some T"
  shows "(\<exists>er. fetch_live_bar e s = Inl er)
       \<or> fetch_live_bar e s = Inr (None, s)
       \<or> (\<exists>b. fetch_live_bar e s =
                 Inr (Some b, s\<lparr>last_bar := Some b, last_bar_time := Some (b_datetime b)\<rparr>)
              \<and> dt_less T (b_datetime b))"
  using assms
  by (auto simp: fetch_live_bar_def Let_def simulated_bar_def not_dt_le
      split: sum.splits option.splits)

lemma strptime_session:
  "strptime_HM ''09:30'' = Inr (9, 30, 0, 0)" "strptime_HM ''16:00'' = Inr (16, 0, 0, 0)"
  by (simp_all add: strptime_HM_def hm_field_def decimal_def digit_val_def is_digit_def)

lemma thursday_fetch:
  "fetch_live_bar thursday (scenario_feed rows i) =
   Inr (Some thursday_bar,
        (scenario_feed rows i)\<lparr>last_bar := Some thursday_bar,
                                last_bar_time := Some (mk_datetime 2024 1 4 0 0)\<rparr>)"
  by (simp add: fetch_live_bar_def is_trading_hours_def truthy_def live_bar_time_def
      simulated_bar_def fmod_def Let_def date_defs scenario_defs strptime_session)

text \<open>
  C4. With last-known timestamp \<open>T\<close>, one invocation of the live poller raises, or
  produces no bar and leaves the feed as it was, or appends exactly one bar to the
  live buffer, and the timestamp of that bar is strictly greater than \<open>T\<close>.
\<close>

theorem live_poller_after_last:
  assumes "last_bar_time s = Some T"
  shows "(\<exists>er. load_next_live_bar e s = Inl er)
       \<or> load_next_live_bar e s = Inr (False, s)
       \<or> (\<exists>b. load_next_live_bar e s =
                 Inr (True, s\<lparr>last_bar := Some b, last_bar_time := Some (b_datetime b),
                             live_buffer := live_buffer s @ [b]\<rparr>)
              \<and> fetch_live_bar e s =
                 Inr (Some b, s\<lparr>last_bar := Some b, last_bar_time := Some (b_datetime b)\<rparr>)
              \<and> dt_less T (b_datetime b))"
  using fetch_live_bar_cases [OF assms, of e]
  by (auto simp: load_next_live_bar_def)

theorem live_poller_after_last_witness:
  "last_bar_time (scenario_feed scenario_rows 3) = Some (mk_datetime 2024 1 3 0 0)
   \<and> fetch_live_bar thursday (scenario_feed scenario_rows 3) =
       Inr (Some thursday_bar,
            (scenario_feed scenario_rows 3)\<lparr>last_bar := Some thursday_bar,
               last_bar_time := Some (mk_datetime 2024 1 4 0 0)\<rparr>)
   \<and> dt_less (mk_datetime 2024 1 3 0 0) (b_datetime thursday_bar)"
proof -
  have h: "last_bar_time (scenario_feed scenario_rows 3) = Some (mk_datetime 2024 1 3 0 0)"
    by (simp add: scenario_feed_def)
  from live_poller_after_last [OF h, of thursday] h show ?thesis
    by (auto simp: load_next_live_bar_def thursday_fetch)
qed

text \<open>
  C5. With a session window configured by two non-empty strings that parse to
  \<open>session_start\<close> and \<open>session_end\<close>, every invocation of the live poller at a clock
  reading whose time of day is before the start or after the end, or whose weekday
  is Saturday or Sunday, produces no bar and leaves the feed unchanged; so does any
  number of such invocations in a row.
\<close>

lemma outside_no_bar:
  assumes "p_sessionstart (p s) = Some a" and "p_sessionend (p s) = Some b"
    and "a \<noteq> []" and "b \<noteq> []"
    and "strptime_HM a = Inr session_start" and "strptime_HM b = Inr session_end"
    and "dt_time (now e) < session_start \<or> session_end < dt_time (now e) \<or> 5 \<le> weekday (now e)"
  shows "fetch_live_bar e s = Inr (None, s)"
  using assms
  by (auto simp: fetch_live_bar_def is_trading_hours_def truthy_def Let_def)

theorem no_bar_outside_session:
  assumes "p_sessionstart (p s) = Some a" and "p_sessionend (p s) = Some b"
    and "a \<noteq> []" and "b \<noteq> []"
    and "strptime_HM a = Inr session_start" and "strptime_HM b = Inr session_end"
    and "\<forall>e \<in> set es. dt_time (now e) < session_start \<or> session_end < dt_time (now e)
                        \<or> 5 \<le> weekday (now e)"
  shows "poll_all es s = Inr (replicate (length es) False, s)
         \<and> (\<forall>e \<in> set es. fetch_live_bar e s = Inr (None, s))"
  using assms(7)
proof (induction es)
  case Nil
  then show ?case by simp
next
  case (Cons e es)
  then have "fetch_live_bar e s = Inr (None, s)"
    using outside_no_bar [OF assms(1-6), of e] by simp
  with Cons show ?case
    by (simp add: load_next_live_bar_def)
qed

theorem no_bar_outside_session_witness:
  "p_sessionstart (p session_feed) = Some ''09:30''
   \<and> p_sessionend (p session_feed) = Some ''16:00''
   \<and> strptime_HM ''09:30'' = Inr (9, 30, 0, 0) \<and> strptime_HM ''16:00'' = Inr (16, 0, 0, 0)
   \<and> 5 \<le> weekday (now saturday)
   \<and> (16, 0, 0, 0) < dt_time (now thursday_evening)
   \<and> poll_all [saturday, thursday_evening, saturday] session_feed =
       Inr ([False, False, False], session_feed)"
proof -
  have h: "p_sessionstart (p session_feed) = Some ''09:30''"
    "p_sessionend (p session_feed) = Some ''16:00''"
    by (simp_all add: session_feed_def scenario_feed_def scenario_init_def scenario_params_def)
  have sat: "5 \<le> weekday (now saturday)"
    by (simp add: saturday_def date_defs)
  have eve: "(16, 0, 0, 0) < dt_time (now thursday_evening)"
    by (simp add: thursday_evening_def date_defs)
  have "\<forall>e \<in> set [saturday, thursday_evening, saturday].
          dt_time (now e) < (9, 30, 0, 0) \<or> (16, 0, 0, 0) < dt_time (now e)
          \<or> 5 \<le> weekday (now e)"
    using sat eve by simp
  from no_bar_outside_session [OF h _ _ strptime_session this]
  show ?thesis using h sat eve strptime_session by simp
qed

section \<open>The historical loader\<close>

text \<open>
  C6. When the requested start date is later than the requested end date, the loader
  returns normally with an empty table, which it marks as loaded.
\<close>

theorem empty_range_loads_nothing:
  assumes "p_fromdate (p s) = Some from_date" and "p_todate (p s) = Some to_date"
    and "dt_less to_date from_date"
  shows "load_historical_data e s = Some (Inr (s\<lparr>hist_data := Some [], hist_loaded := True\<rparr>))"
proof -
  from assms(3) have "\<not> dt_le from_date to_date"
    by (auto simp: dt_le_def dt_less_def)
  then have "collect_dates (p s) (intraday s) from_date to_date [] = Some (Inr [])"
    by (simp add: collect_dates.simps)
  with assms(1,2) show ?thesis
    by (simp add: load_historical_data_def)
qed

theorem empty_range_loads_nothing_witness:
  "p_fromdate (p empty_range_init) = Some (mk_datetime 2024 1 3 0 0)
   \<and> p_todate (p empty_range_init) = Some (mk_datetime 2024 1 1 0 0)
   \<and> dt_less (mk_datetime 2024 1 1 0 0) (mk_datetime 2024 1 3 0 0)
   \<and> load_historical_data scenario_env empty_range_init =
       Some (Inr (empty_range_init\<lparr>hist_data := Some [], hist_loaded := True\<rparr>))"
proof -
  have h: "p_fromdate (p empty_range_init) = Some (mk_datetime 2024 1 3 0 0)"
    "p_todate (p empty_range_init) = Some (mk_datetime 2024 1 1 0 0)"
    by (simp_all add: empty_range_init_def scenario_init_def scenario_params_def)
  have lt: "dt_less (mk_datetime 2024 1 1 0 0) (mk_datetime 2024 1 3 0 0)"
    by (simp add: date_defs)
  from empty_range_loads_nothing [OF h lt, of scenario_env] h lt show ?thesis
    by simp
qed

lemma scenario_feed_fields:
  "hist_data (scenario_feed rows i) = Some rows" "idx (scenario_feed rows i) = Some i"
  "live_buffer (scenario_feed rows i) = []" "p (scenario_feed rows i) = scenario_params"
  by (simp_all add: scenario_feed_def scenario_init_def)

lemma scenario_rows_length: "int (length scenario_rows) = 3"
  by (simp add: scenario_rows_def)

lemma saturday_fetch:
  "fetch_live_bar saturday (scenario_feed rows i) = Inr (None, scenario_feed rows i)"
  by (simp add: fetch_live_bar_def is_trading_hours_def truthy_def Let_def date_defs
      scenario_defs strptime_session)

lemma scenario_init_ok: "init scenario_params = Inr scenario_init"
  by (simp add: init_def scenario_defs)

lemma scenario_dates:
  "collect_dates ps False (mk_datetime 2024 1 1 0 0) (mk_datetime 2024 1 3 0 0) [] =
   Some (Inr [mk_datetime 2024 1 1 0 0, mk_datetime 2024 1 2 0 0, mk_datetime 2024 1 3 0 0])"
  by (simp add: collect_dates.simps date_defs)

lemma scenario_make_rows:
  "make_rows scenario_env [mk_datetime 2024 1 1 0 0, mk_datetime 2024 1 2 0 0, mk_datetime 2024 1 3 0 0]
     = scenario_rows"
  by (simp add: make_rows_def cumsum_def scenario_env_def scenario_rows_def scenario_bar_def Let_def)

lemma low_high_make_rows:
  "make_rows low_high_env [mk_datetime 2024 1 1 0 0, mk_datetime 2024 1 2 0 0, mk_datetime 2024 1 3 0 0]
     = low_high_rows"
  by (simp add: make_rows_def cumsum_def scenario_env_def low_high_env_def low_high_rows_def
      scenario_bar_def Let_def)

lemma scenario_start:
  "start scenario_env scenario_init = Some (Inr (scenario_feed scenario_rows (- 1)))"
  by (simp add: start_def connect_def load_historical_data_def Let_def scenario_init_def
      scenario_feed_def scenario_api_def scenario_params_def scenario_dates scenario_make_rows
      scenario_rows_def scenario_bar_def)

subsection \<open>Timestamps of the table\<close>

text \<open>
  With a timeframe of \<open>k > 0\<close> minutes the inner loop returns: it appends the times
  of one day from \<open>m\<close> minutes on, strictly increasing.
\<close>

lemma minute_loop_positive:
  assumes "timeframe_minutes ps = Inr k" and "0 < k"
  shows "0 \<le> m \<Longrightarrow>
    \<exists>new. minute_loop ps c m ds = Some (Inr (ds @ new))
      \<and> (\<forall>d \<in> set new. ordinal d = ordinal c \<and> m \<le> hour d * 60 + minute d
             \<and> 0 \<le> minute d \<and> minute d < 60 \<and> second d = 0 \<and> microsecond d = 0)
      \<and> sorted_wrt dt_less new"
proof (induction "nat (960 - m)" arbitrary: m ds rule: less_induct)
  case less
  show ?case
  proof (cases "m < 960")
    case False
    then have "minute_loop ps c m ds = Some (Inr (ds @ []))"
      by (simp add: minute_loop.simps)
    then show ?thesis by fastforce
  next
    case True
    define bt where "bt = c\<lparr>hour := m div 60, minute := m mod 60, second := 0, microsecond := 0\<rparr>"
    from True less.prems have "0 \<le> m div 60" and "m div 60 < 24"
      by presburger+
    then have r: "replace_hm c (m div 60) (m mod 60) = Inr bt"
      by (simp add: replace_hm_def bt_def)
    have "nat (960 - (m + k)) < nat (960 - m)" using True assms(2) by simp
    moreover have "0 \<le> m + k" using less.prems assms(2) by simp
    ultimately obtain new where
      new: "minute_loop ps c (m + k) (ds @ [bt]) = Some (Inr ((ds @ [bt]) @ new))"
      and props: "\<forall>d \<in> set new. ordinal d = ordinal c \<and> m + k \<le> hour d * 60 + minute d
             \<and> 0 \<le> minute d \<and> minute d < 60 \<and> second d = 0 \<and> microsecond d = 0"
      and srt: "sorted_wrt dt_less new"
      using less.hyps [of "m + k" "ds @ [bt]"] by blast
    have step: "minute_loop ps c m ds = Some (Inr (ds @ (bt # new)))"
      using True r assms(1) new by (subst minute_loop.simps) simp
    have bt_m: "hour bt * 60 + minute bt = m" "0 \<le> minute bt" "minute bt < 60"
      "ordinal bt = ordinal c" "second bt = 0" "microsecond bt = 0"
      by (simp_all add: bt_def)
    have "dt_less bt d" if "d \<in> set new" for d
    proof -
      from props that assms(2) have "hour bt * 60 + minute bt < hour d * 60 + minute d"
        and "0 \<le> minute d" "minute d < 60" and "ordinal d = ordinal bt"
        by (auto simp: bt_m)
      with bt_m(2,3) have "hour bt < hour d \<or> (hour bt = hour d \<and> minute bt < minute d)"
        by arith
      with \<open>ordinal d = ordinal bt\<close> show ?thesis
        by (auto simp: dt_less_def dt_key_def)
    qed
    with srt have "sorted_wrt dt_less (bt # new)" by simp
    moreover have "\<forall>d \<in> set (bt # new). ordinal d = ordinal c \<and> m \<le> hour d * 60 + minute d
             \<and> 0 \<le> minute d \<and> minute d < 60 \<and> second d = 0 \<and> microsecond d = 0"
      using props bt_m assms(2) by auto
    ultimately show ?thesis using step by blast
  qed
qed


lemma minute_loop_nonpositive_raw:
  assumes returns: "minute_loop ps c m ds = Some y"
  shows "timeframe_minutes ps = Inr k \<longrightarrow> k \<le> 0 \<longrightarrow> m < 960 \<longrightarrow> (\<exists>er. y = Inl er)"
proof (rule minute_loop.raw_induct
    [where P = "\<lambda>ps c m ds y.
       timeframe_minutes ps = Inr k \<longrightarrow> k \<le> 0 \<longrightarrow> m < 960 \<longrightarrow> (\<exists>er. y = Inl er)",
     OF _ returns])
  fix f :: "params \<Rightarrow> datetime \<Rightarrow> int \<Rightarrow> datetime list \<Rightarrow> (error + datetime list) option"
  fix ps c m ds y
  assume IH: "\<And>ps c m ds y. f ps c m ds = Some y \<Longrightarrow>
      timeframe_minutes ps = Inr k \<longrightarrow> k \<le> 0 \<longrightarrow> m < 960 \<longrightarrow> (\<exists>er. y = Inl er)"
  assume body: "(if m < 16 * 60
      then case replace_hm c (m div 60) (m mod 60) of
             Inl er \<Rightarrow> Some (Inl er)
           | Inr bar_time \<Rightarrow>
               (case timeframe_minutes ps of
                  Inl er \<Rightarrow> Some (Inl er)
                | Inr k \<Rightarrow> f ps c (m + k) (ds @ [bar_time]))
      else Some (Inr ds)) = Some y"
  show "timeframe_minutes ps = Inr k \<longrightarrow> k \<le> 0 \<longrightarrow> m < 960 \<longrightarrow> (\<exists>er. y = Inl er)"
  proof (intro impI)
    assume k: "timeframe_minutes ps = Inr k" "k \<le> 0" and m: "m < 960"
    show "\<exists>er. y = Inl er"
    proof (cases "replace_hm c (m div 60) (m mod 60)")
      case (Inl er)
      with body m show ?thesis by auto
    next
      case (Inr bt)
      with body m k have "f ps c (m + k) (ds @ [bt]) = Some y"
        by simp
      from IH [OF this] k m show ?thesis by simp
    qed
  qed
qed

lemma minute_loop_nonpositive:
  assumes "minute_loop ps c m ds = Some y"
    and "timeframe_minutes ps = Inr k" and "k \<le> 0" and "m < 960"
  shows "\<exists>er. y = Inl er"
  using minute_loop_nonpositive_raw [OF assms(1)] assms(2-4) by blast

lemma minute_loop_no_timeframe:
  assumes "timeframe_minutes ps = Inl er" and "m < 960"
  shows "\<exists>er'. minute_loop ps c m ds = Some (Inl er')"
  using assms by (subst minute_loop.simps) (auto split: sum.splits)

text \<open>
  A timeframe that is not positive never lets the inner loop return a list, so
  whenever the loop returns one it has appended strictly increasing times of the day.
\<close>

lemma minute_loop_appends:
  assumes "minute_loop ps c m ds = Some (Inr out)" and "0 \<le> m" and "m < 960"
  shows "\<exists>new. out = ds @ new
      \<and> (\<forall>d \<in> set new. ordinal d = ordinal c)
      \<and> sorted_wrt dt_less new"
proof (cases "timeframe_minutes ps")
  case (Inl er)
  from minute_loop_no_timeframe [OF Inl assms(3), of c ds] assms(1) show ?thesis by auto
next
  case (Inr k)
  show ?thesis
  proof (cases "0 < k")
    case True
    from minute_loop_positive [OF Inr True assms(2), of c ds] assms(1) show ?thesis
      by auto
  next
    case False
    then have "k \<le> 0" by simp
    from minute_loop_nonpositive [OF assms(1) Inr this assms(3)] show ?thesis by auto
  qed
qed

lemma ordinal_less_dt_less: "ordinal a < ordinal b \<Longrightarrow> dt_less a b"
  by (simp add: dt_less_def dt_key_def)

lemma before_day_append:
  assumes "before_day c ds" and "\<forall>d \<in> set new. ordinal d = ordinal c" and "sorted_wrt dt_less new"
    and "ordinal c < ordinal c'"
  shows "before_day c' (ds @ new)"
  using assms
  by (auto simp: before_day_def sorted_wrt_append intro: ordinal_less_dt_less)

lemma before_day_next:
  "before_day c ds \<Longrightarrow> ordinal c < ordinal c' \<Longrightarrow> before_day c' ds"
  using before_day_append [of c ds "[]" c'] by simp

lemma collect_dates_sorted:
  "collect_dates ps intra c e ds = Some (Inr out) \<Longrightarrow> before_day c ds \<Longrightarrow>
   sorted_wrt dt_less out"
proof (induction ps intra c e ds rule: collect_dates.induct)
  case (1 ps intra c e ds)
  show ?case
  proof (cases "dt_le c e")
    case False
    with "1.prems" show ?thesis
      by (simp add: collect_dates.simps before_day_def)
  next
    case le: True
    show ?thesis
    proof (cases intra)
      case False
      from "1.prems"(1) le False obtain c' where
        c': "add_days c 1 = Inr c'" and
        rec: "collect_dates ps intra c' e (if weekday c < 5 then ds @ [c] else ds) = Some (Inr out)"
        by (subst (asm) collect_dates.simps) (auto split: sum.splits)
      from c' have lt: "ordinal c < ordinal c'"
        by (auto simp: add_days_def split: if_splits)
      have "before_day c' (if weekday c < 5 then ds @ [c] else ds)"
        using before_day_append [OF "1.prems"(2) _ _ lt, of "[c]"]
          before_day_next [OF "1.prems"(2) lt] by simp
      from "1.IH"(2) [OF le False c' rec this] show ?thesis .
    next
      case True
      from "1.prems"(1) le True obtain ds' c' where
        inner: "(if weekday c < 5 then minute_loop ps c (9 * 60 + 30) ds else Some (Inr ds)) = Some (Inr ds')"
        and c': "add_days c 1 = Inr c'"
        and rec: "collect_dates ps intra c' e ds' = Some (Inr out)"
        by (subst (asm) collect_dates.simps) (auto split: sum.splits option.splits)
      from c' have lt: "ordinal c < ordinal c'"
        by (auto simp: add_days_def split: if_splits)
      have "before_day c' ds'"
      proof (cases "weekday c < 5")
        case False
        with inner have "ds' = ds" by simp
        with before_day_next [OF "1.prems"(2) lt] show ?thesis by simp
      next
        case True
        with inner have "minute_loop ps c 570 ds = Some (Inr ds')" by simp
        from minute_loop_appends [OF this] obtain new where
          "ds' = ds @ new" "\<forall>d \<in> set new. ordinal d = ordinal c" "sorted_wrt dt_less new"
          by auto
        with before_day_append [OF "1.prems"(2) _ _ lt, of new] show ?thesis by simp
      qed
      from "1.IH"(1) [OF le True inner refl c' rec this] show ?thesis .
    qed
  qed
qed

lemma make_rows_dates: "map b_datetime (make_rows e dates) = dates"
  by (simp add: make_rows_def Let_def map_nth comp_def)

text \<open>
  Whenever the loader returns a table, the timestamps of its rows are strictly
  increasing, for daily and for intraday feeds.
\<close>

lemma loader_timestamps_increase:
  assumes "load_historical_data e s = Some (Inr s')" and "hist_data s' = Some rows"
  shows "sorted_wrt dt_less (map b_datetime rows)"
proof -
  from assms obtain start_date end_date dates where
    cd: "collect_dates (p s) (intraday s) start_date end_date [] = Some (Inr dates)"
    and rows: "rows = [] \<or> rows = make_rows e dates"
    by (auto simp: load_historical_data_def Let_def split: sum.splits option.splits if_splits)
  from collect_dates_sorted [OF cd] have "sorted_wrt dt_less dates"
    by (simp add: before_day_def)
  with rows show ?thesis
    by (auto simp: make_rows_dates)
qed

text \<open>
  C3. The loader adds a sample of \<open>normal(0.05, 0.05)\<close> to the larger of open and
  close to get the high, and the sample can be negative. With the sample -0.01 the
  loader returns, for 2024-01-01 to 2024-01-03, three bars whose high 99.99 lies
  below their open and close of 100.
\<close>

theorem loader_high_below_open:
  "load_historical_data low_high_env scenario_init =
     Some (Inr (scenario_init\<lparr>hist_data := Some low_high_rows,
                              last_bar_time := Some (mk_datetime 2024 1 3 0 0),
                              hist_loaded := True\<rparr>))
   \<and> b_high (hd low_high_rows) < max (b_open (hd low_high_rows)) (b_close (hd low_high_rows))"
  by (simp add: load_historical_data_def Let_def scenario_init_def scenario_params_def
      scenario_dates low_high_make_rows low_high_rows_def scenario_bar_def)

section \<open>The cursor\<close>

lemma fetch_keeps:
  "fetch_live_bar e s = Inr (r, s') \<Longrightarrow>
   idx s' = idx s \<and> hist_data s' = hist_data s \<and> p s' = p s \<and> live_buffer s' = live_buffer s"
  by (auto simp: fetch_live_bar_def Let_def split: sum.splits option.splits if_splits)

lemma load_next_live_bar_keeps:
  "load_next_live_bar e s = Inr (r, s') \<Longrightarrow>
   idx s' = idx s \<and> hist_data s' = hist_data s \<and> p s' = p s"
  by (auto simp: load_next_live_bar_def split: sum.splits option.splits dest!: fetch_keeps)

lemma next_feed_live:
  "hist_data s = Some rows \<Longrightarrow> idx s = Some i \<Longrightarrow> int (length rows) \<le> i \<Longrightarrow>
   next_feed e s = load_next_live_bar e s"
  by (auto simp: next_feed_def idx_within_def hist_len_def next_live_def)

lemma advance_all_live:
  "hist_data s = Some rows \<Longrightarrow> idx s = Some i \<Longrightarrow> int (length rows) \<le> i \<Longrightarrow>
   advance_all es s = Inr (rs, s') \<Longrightarrow> idx s' = Some i \<and> hist_data s' = Some rows"
proof (induction es arbitrary: s rs)
  case Nil
  then show ?case by simp
next
  case (Cons e es)
  from Cons.prems obtain r s1 rs1 where
    step: "load_next_live_bar e s = Inr (r, s1)" and rest: "advance_all es s1 = Inr (rs1, s')"
    by (auto simp: next_feed_live split: sum.splits)
  from step Cons.prems have "hist_data s1 = Some rows" "idx s1 = Some i"
    by (auto dest: load_next_live_bar_keeps)
  with Cons.IH [OF _ _ Cons.prems(3) rest] show ?case by simp
qed

text \<open>
  C2. Once the cursor index is at or past the length of the historical table, every
  sequence of advance calls that returns leaves the index and the table as they
  were: the cursor is never inside the table again, and \<open>_get_bar\<close> takes its bar
  from the live buffer, never from the table.
\<close>

theorem live_never_returns_to_historical:
  assumes "hist_data s = Some rows" and "idx s = Some i" and "int (length rows) \<le> i"
    and "advance_all es s = Inr (rs, s')"
  shows "idx s' = Some i \<and> hist_data s' = Some rows \<and> \<not> in_historical s'
         \<and> (\<forall>e. get_bar e s' = get_live_bar e s')"
proof -
  have "idx s' = Some i \<and> hist_data s' = Some rows"
    using advance_all_live [OF assms] .
  with assms(3) show ?thesis
    by (auto simp: in_historical_def get_bar_def idx_within_def hist_len_def)
qed

lemma live_run:
  "advance_all [saturday, thursday] (scenario_feed scenario_rows 3) =
     Inr ([False, True],
          (scenario_feed scenario_rows 3)\<lparr>last_bar := Some thursday_bar,
             last_bar_time := Some (mk_datetime 2024 1 4 0 0), live_buffer := [thursday_bar]\<rparr>)"
proof -
  have "next_feed e (scenario_feed scenario_rows 3) = load_next_live_bar e (scenario_feed scenario_rows 3)" for e
    by (rule next_feed_live [of _ scenario_rows 3]) (simp_all add: scenario_feed_fields scenario_rows_length)
  then show ?thesis
    by (simp add: load_next_live_bar_def saturday_fetch thursday_fetch scenario_feed_fields)
qed

theorem live_never_returns_to_historical_witness:
  "hist_data (scenario_feed scenario_rows 3) = Some scenario_rows
   \<and> idx (scenario_feed scenario_rows 3) = Some 3
   \<and> int (length scenario_rows) \<le> 3
   \<and> advance_all [saturday, thursday] (scenario_feed scenario_rows 3) =
       Inr ([False, True],
            (scenario_feed scenario_rows 3)\<lparr>last_bar := Some thursday_bar,
               last_bar_time := Some (mk_datetime 2024 1 4 0 0), live_buffer := [thursday_bar]\<rparr>)
   \<and> idx ((scenario_feed scenario_rows 3)\<lparr>last_bar := Some thursday_bar,
               last_bar_time := Some (mk_datetime 2024 1 4 0 0), live_buffer := [thursday_bar]\<rparr>) = Some 3
   \<and> \<not> in_historical ((scenario_feed scenario_rows 3)\<lparr>last_bar := Some thursday_bar,
               last_bar_time := Some (mk_datetime 2024 1 4 0 0), live_buffer := [thursday_bar]\<rparr>)"
proof -
  have h: "hist_data (scenario_feed scenario_rows 3) = Some scenario_rows"
    "idx (scenario_feed scenario_rows 3) = Some 3" "int (length scenario_rows) \<le> 3"
    by (simp_all add: scenario_feed_fields scenario_rows_length)
  from live_never_returns_to_historical [OF h live_run] h live_run show ?thesis
    by blast
qed

lemma cursor_before_table:
  assumes "idx s = Some (- 1)" and "hist_data s = Some rows" and "rows \<noteq> []"
  shows "next_feed e s = load_next_live_bar e s"
  using assms by (cases rows) (auto simp: next_feed_def idx_within_def hist_len_def next_live_def)

text \<open>
  C1. The feed of the scenario is constructed and started: the table holds the bars
  of 2024-01-01, 2024-01-02 and 2024-01-03 and the cursor is -1. The first advance,
  on a Saturday, when the live poller produces nothing, returns false and leaves the
  cursor at -1: the test for historical data requires a cursor of at least 0, so
  from -1 the call goes to the live poller. Loading the bar at that cursor returns
  false as well.
\<close>

theorem first_advance_polls_live:
  "init scenario_params = Inr scenario_init
   \<and> start scenario_env scenario_init = Some (Inr (scenario_feed scenario_rows (- 1)))
   \<and> map b_datetime scenario_rows =
       [mk_datetime 2024 1 1 0 0, mk_datetime 2024 1 2 0 0, mk_datetime 2024 1 3 0 0]
   \<and> next_feed saturday (scenario_feed scenario_rows (- 1)) =
       Inr (False, scenario_feed scenario_rows (- 1))
   \<and> load_next True saturday (scenario_feed scenario_rows (- 1)) =
       Inr (False, scenario_feed scenario_rows (- 1))"
proof -
  have "scenario_rows \<noteq> []"
    by (simp add: scenario_rows_def)
  then have "next_feed saturday (scenario_feed scenario_rows (- 1)) =
      load_next_live_bar saturday (scenario_feed scenario_rows (- 1))"
    by (intro cursor_before_table) (simp_all add: scenario_feed_fields)
  then have "next_feed saturday (scenario_feed scenario_rows (- 1)) =
      Inr (False, scenario_feed scenario_rows (- 1))"
    by (simp add: load_next_live_bar_def saturday_fetch)
  moreover have "load_next True saturday (scenario_feed scenario_rows (- 1)) =
      Inr (False, scenario_feed scenario_rows (- 1))"
    by (simp add: load_next_def load_bar_def get_bar_def get_live_bar_def idx_within_def
        load_next_live_bar_def saturday_fetch scenario_feed_fields)
  moreover have "map b_datetime scenario_rows =
       [mk_datetime 2024 1 1 0 0, mk_datetime 2024 1 2 0 0, mk_datetime 2024 1 3 0 0]"
    by (simp add: scenario_rows_def scenario_bar_def)
  ultimately show ?thesis
    using scenario_init_ok scenario_start by simp
qed

text \<open>
  On a weekday after the table the first advance returns true, with a live bar in
  the buffer and the cursor still at -1. From cursor 0 the table gives two more
  positions, and the third advance is already a live poll.
\<close>

lemma first_advance_on_weekday:
  "next_feed thursday (scenario_feed scenario_rows (- 1)) =
     Inr (True, (scenario_feed scenario_rows (- 1))
                  \<lparr>last_bar := Some thursday_bar,
                   last_bar_time := Some (mk_datetime 2024 1 4 0 0),
                   live_buffer := [thursday_bar]\<rparr>)"
proof -
  have "scenario_rows \<noteq> []"
    by (simp add: scenario_rows_def)
  then have "next_feed thursday (scenario_feed scenario_rows (- 1)) =
      load_next_live_bar thursday (scenario_feed scenario_rows (- 1))"
    by (intro cursor_before_table) (simp_all add: scenario_feed_fields)
  then show ?thesis
    by (simp add: load_next_live_bar_def thursday_fetch scenario_feed_fields)
qed

lemma advance_from_zero:
  "advance_all [saturday, saturday, saturday] (scenario_feed scenario_rows 0) =
     Inr ([True, True, False], scenario_feed scenario_rows 3)"
proof -
  have step: "next_feed e (scenario_feed scenario_rows i) = Inr (True, scenario_feed scenario_rows (i + 1))"
    if "0 \<le> i" and "i < 2" for e i
    using that
    by (simp add: next_feed_def idx_within_def hist_len_def next_historical_def Let_def
        scenario_feed_fields scenario_rows_length)
      (simp add: scenario_feed_def)
  have last: "next_feed saturday (scenario_feed scenario_rows 2) =
      Inr (False, scenario_feed scenario_rows 3)"
    using saturday_fetch [of scenario_rows 3]
    by (simp add: next_feed_def idx_within_def hist_len_def next_live_def load_next_live_bar_def
        Let_def scenario_feed_fields scenario_rows_length)
      (simp add: scenario_feed_def scenario_init_def scenario_params_def)
  from step [of 0 saturday] step [of 1 saturday] last show ?thesis
    by simp
qed

section \<open>The strategy\<close>

lemmas strategy_defs = buy_order_def sell_order_def pending_strategy_def partial_fill_def
  expired_order_def
  death_cross_def golden_cross_def

lemma pending_bar_no_action: "s_order st \<noteq> None \<Longrightarrow> strategy_next v st = (NoAction, st)"
  by (simp add: strategy_next_def)

lemma notify_order_tracking:
  "s_order (notify_order ord st) =
     (if o_status ord = Submitted \<or> o_status ord = Accepted then s_order st else None)"
  by (simp add: notify_order_def Let_def)

lemma notify_order_keeps: "o_status ord = Submitted \<or> o_status ord = Accepted \<Longrightarrow> notify_order ord st = st"
  by (auto simp: notify_order_def)

lemma run_events_pending:
  "s_order st \<noteq> None \<Longrightarrow> list_all keeps_pending evs \<Longrightarrow>
   run_events evs st = (replicate (length evs) NoAction, st)"
proof (induction evs)
  case Nil
  then show ?case by simp
next
  case (Cons ev evs)
  then show ?case
    by (cases ev) (auto simp: pending_bar_no_action notify_order_keeps)
qed

text \<open>
  C9 (as amended). While an order is pending, processing a bar submits nothing and
  leaves the strategy unchanged, over any sequence of bars and of notifications with
  status Submitted or Accepted. The notification that the order is completed,
  cancelled, margin-called, rejected or expired clears the pending order.
\<close>

theorem pending_order_blocks_submission:
  assumes "s_order st \<noteq> None"
  shows "strategy_next v st = (NoAction, st)
       \<and> (list_all keeps_pending evs \<longrightarrow>
            run_events evs st = (replicate (length evs) NoAction, st))
       \<and> (o_status ord \<in> {Completed, Canceled, Margin, Rejected, Expired} \<longrightarrow>
            s_order (notify_order ord st) = None)"
  using assms
  by (auto simp: pending_bar_no_action run_events_pending notify_order_tracking)

theorem pending_order_blocks_submission_witness:
  "s_order pending_strategy \<noteq> None
   \<and> strategy_next golden_cross pending_strategy = (NoAction, pending_strategy)
   \<and> run_events [Bar golden_cross, Notify buy_order, Bar death_cross] pending_strategy =
       ([NoAction, NoAction, NoAction], pending_strategy)
   \<and> s_order (notify_order (buy_order\<lparr>o_status := Completed\<rparr>) pending_strategy) = None
   \<and> s_order (notify_order expired_order pending_strategy) = None"
proof -
  have h: "s_order pending_strategy \<noteq> None"
    by (simp add: pending_strategy_def)
  have k: "list_all keeps_pending [Bar golden_cross, Notify buy_order, Bar death_cross]"
    by (simp add: buy_order_def)
  let ?evs = "[Bar golden_cross, Notify buy_order, Bar death_cross]"
  have l: "replicate (length ?evs) NoAction = [NoAction, NoAction, NoAction]"
    by simp
  have c: "o_status (buy_order\<lparr>o_status := Completed\<rparr>)
             \<in> {Completed, Canceled, Margin, Rejected, Expired}"
    "o_status expired_order \<in> {Completed, Canceled, Margin, Rejected, Expired}"
    by (simp_all add: expired_order_def)
  note t1 = pending_order_blocks_submission
              [OF h, of golden_cross ?evs "buy_order\<lparr>o_status := Completed\<rparr>"]
  note t2 = pending_order_blocks_submission [OF h, of golden_cross ?evs expired_order]
  from t1 have "strategy_next golden_cross pending_strategy = (NoAction, pending_strategy)"
    by blast
  moreover from t1 k have "run_events ?evs pending_strategy =
      (replicate (length ?evs) NoAction, pending_strategy)"
    by blast
  then have "run_events ?evs pending_strategy = ([NoAction, NoAction, NoAction], pending_strategy)"
    by (simp only: l)
  moreover from t1 c(1) have
    "s_order (notify_order (buy_order\<lparr>o_status := Completed\<rparr>) pending_strategy) = None"
    by blast
  moreover from t2 c(2) have "s_order (notify_order expired_order pending_strategy) = None"
    by blast
  ultimately show ?thesis using h by blast
qed

text \<open>
  C9 (as stated) fails: the notification that the pending order has expired, which
  is none of Completed, Canceled, Margin and Rejected, clears the pending order, and
  the next bar submits a buy order.
\<close>

theorem expiry_clears_pending:
  "s_order pending_strategy \<noteq> None
   \<and> o_status expired_order \<noteq> Completed \<and> o_status expired_order \<noteq> Canceled
   \<and> o_status expired_order \<noteq> Margin \<and> o_status expired_order \<noteq> Rejected
   \<and> fst (run_events [Notify expired_order, Bar golden_cross] pending_strategy) = [NoAction, Buy]"
  by (simp add: strategy_defs golden_cross_def notify_order_def strategy_next_def log_msg_def
      Let_def)

text \<open>
  The notification of a partial fill resets the pending order as well, although the
  order is still alive then: the next bar submits a sell order beside it. The
  comments of the strategy say that the order is tracked to avoid a second order.
\<close>

lemma partial_fill_resets_tracking:
  "s_order pending_strategy \<noteq> None
   \<and> fst (run_events [Notify partial_fill, Bar death_cross] pending_strategy) = [NoAction, Sell]"
  by (simp add: strategy_defs death_cross_def notify_order_def strategy_next_def log_msg_def
      Let_def)

end
